theory Spec2Isabelle
  imports Main
begin

section \<open>The icon generation script generate_icons.py\<close>

text \<open>
  The script reads one file, \<^verbatim>\<open>icon.svg\<close>, asks an SVG rasterizer (cairosvg) for five
  square PNG images, writes them, and asks an image library (Pillow) to pack two of them
  into \<^verbatim>\<open>favicon.ico\<close>. Everything it does is an effect: on the file system, on the
  standard output, on the two libraries. The model makes these effects explicit.
\<close>

subsection \<open>Data\<close>

type_synonym path = string

text \<open>A byte string (the content of a file). The script never looks inside one.\<close>

type_synonym bytes = "nat list"

text \<open>A decoded raster image, as Pillow's \<^verbatim>\<open>Image\<close> object: its size and its pixel data.\<close>

record image =
  width :: nat
  height :: nat
  pixels :: bytes

text \<open>The exceptions that can end the script.\<close>

datatype error =
    ImportError
  | FileNotFoundError path
  | OSError path
  | LibraryError string

text \<open>A call either returns or raises; no function of the script returns a value.\<close>

datatype outcome = Returned | Raised error

text \<open>
  What the script does to the outside, in the order it does it: a line printed, a shell
  command run by \<^verbatim>\<open>os.system\<close>, a call of \<^verbatim>\<open>cairosvg.svg2png\<close> (url, output width, output
  height), a file written (path, content), a call of \<^verbatim>\<open>Image.open\<close>, a call of
  \<^verbatim>\<open>Image.save\<close> with format ICO (the image saved, the path, the sizes and the appended
  images).
\<close>

datatype event =
    Print string
  | System string
  | Svg2png path nat nat
  | Write path bytes
  | ImageOpen path
  | IcoSave image path "(nat \<times> nat) list" "image list"

text \<open>
  The state the script runs in: the files of the working directory, the Python modules
  that can be imported, and the effects so far.
\<close>

record world =
  files :: "path \<Rightarrow> bytes option"
  modules :: "string list"
  trace :: "event list"

text \<open>
  The collaborators outside the repository, taken as parameters: the rasterizer applied
  to the content of an SVG file, Pillow's decoder, Pillow's ICO writer and the frames an
  ICO file holds, whether a path can be opened for writing, and what a shell command
  does to the installed modules (with its exit status).
\<close>

record env =
  svg2png :: "bytes \<Rightarrow> nat \<Rightarrow> nat \<Rightarrow> error + bytes"
  image_open :: "bytes \<Rightarrow> error + image"
  ico_save :: "image \<Rightarrow> (nat \<times> nat) list \<Rightarrow> image list \<Rightarrow> error + bytes"
  ico_frames :: "bytes \<Rightarrow> image list"
  can_write :: "path \<Rightarrow> bool"
  os_system :: "string \<Rightarrow> string list \<Rightarrow> int \<times> string list"

subsection \<open>Primitive effects\<close>

definition emit :: "event \<Rightarrow> world \<Rightarrow> world" where
  "emit ev w = w\<lparr>trace := trace w @ [ev]\<rparr>"

definition print :: "string \<Rightarrow> world \<Rightarrow> world" where
  "print s w = emit (Print s) w"

text \<open>\<^verbatim>\<open>os.path.exists\<close>.\<close>

definition path_exists :: "world \<Rightarrow> path \<Rightarrow> bool" where
  "path_exists w p = (files w p \<noteq> None)"

text \<open>
  \<^verbatim>\<open>with open(output_path, 'wb') as f: f.write(data)\<close>: opening the file can fail, and then
  nothing is written.
\<close>

definition write_file :: "env \<Rightarrow> path \<Rightarrow> bytes \<Rightarrow> world \<Rightarrow> outcome \<times> world" where
  "write_file E p data w =
     (if can_write E p
      then (Returned, emit (Write p data) (w\<lparr>files := (files w)(p \<mapsto> data)\<rparr>))
      else (Raised (OSError p), w))"

text \<open>\<^verbatim>\<open>cairosvg.svg2png(url=..., output_width=..., output_height=...)\<close> reads the file at the url.\<close>

definition cairosvg_svg2png ::
  "env \<Rightarrow> path \<Rightarrow> nat \<Rightarrow> nat \<Rightarrow> world \<Rightarrow> (error + bytes) \<times> world" where
  "cairosvg_svg2png E url output_width output_height w =
     (let w1 = emit (Svg2png url output_width output_height) w in
      case files w url of
        None \<Rightarrow> (Inl (FileNotFoundError url), w1)
      | Some svg \<Rightarrow> (svg2png E svg output_width output_height, w1))"

text \<open>\<^verbatim>\<open>Image.open(path)\<close>.\<close>

definition Image_open :: "env \<Rightarrow> path \<Rightarrow> world \<Rightarrow> (error + image) \<times> world" where
  "Image_open E p w =
     (let w1 = emit (ImageOpen p) w in
      case files w p of
        None \<Rightarrow> (Inl (FileNotFoundError p), w1)
      | Some d \<Rightarrow> (image_open E d, w1))"

text \<open>
  \<^verbatim>\<open>im.save(output_path, format='ICO', sizes=..., append_images=...)\<close>. What a failed save
  leaves at the path is not described: the file is as before.
\<close>

definition Image_save_ico ::
  "env \<Rightarrow> image \<Rightarrow> path \<Rightarrow> (nat \<times> nat) list \<Rightarrow> image list \<Rightarrow> world \<Rightarrow> outcome \<times> world" where
  "Image_save_ico E im p sizes append_images w =
     (let w1 = emit (IcoSave im p sizes append_images) w in
      if \<not> can_write E p then (Raised (OSError p), w1)
      else case ico_save E im sizes append_images of
             Inl e \<Rightarrow> (Raised e, w1)
           | Inr d \<Rightarrow> (Returned, emit (Write p d) (w1\<lparr>files := (files w1)(p \<mapsto> d)\<rparr>)))"

subsection \<open>Strings the script prints\<close>

text \<open>Python's decimal rendering of a non-negative integer inside an f-string.\<close>

definition digit :: "nat \<Rightarrow> char" where
  "digit d = ''0123456789'' ! d"

function str_nat :: "nat \<Rightarrow> string" where
  "str_nat n = (if n < 10 then [digit n] else str_nat (n div 10) @ [digit (n mod 10)])"
  by pat_completeness auto
termination
  by (relation "measure id") auto

declare str_nat.simps [simp del]

text \<open>The two non-ASCII characters of the messages, as their UTF-8 bytes.\<close>

definition check_mark :: string where
  "check_mark = [CHR 0xE2, CHR 0x9C, CHR 0x93]"

definition white_check_mark :: string where
  "white_check_mark = [CHR 0xE2, CHR 0x9C, CHR 0x85]"

definition png_message :: "path \<Rightarrow> nat \<Rightarrow> string" where
  "png_message output_path size' =
     check_mark @ '' Generated '' @ output_path @ '' ('' @ str_nat size' @ ''x'' @ str_nat size' @ '')''"

definition ico_message :: "path \<Rightarrow> string" where
  "ico_message output_path = check_mark @ '' Generated '' @ output_path"

subsection \<open>The script\<close>

text \<open>The dictionary \<^verbatim>\<open>SIZES\<close>, in insertion order (the order Python iterates it in).\<close>

definition SIZES :: "(path \<times> nat) list" where
  "SIZES =
     [(''favicon-16x16.png'', 16),
      (''favicon-32x32.png'', 32),
      (''apple-touch-icon.png'', 180),
      (''android-chrome-192x192.png'', 192),
      (''android-chrome-512x512.png'', 512)]"

definition generate_png_from_svg :: "env \<Rightarrow> path \<Rightarrow> path \<Rightarrow> nat \<Rightarrow> world \<Rightarrow> outcome \<times> world" where
  "generate_png_from_svg E svg_path output_path size' w =
     (case cairosvg_svg2png E svg_path size' size' w of
        (Inl e, w1) \<Rightarrow> (Raised e, w1)
      | (Inr png_data, w1) \<Rightarrow>
          (case write_file E output_path png_data w1 of
             (Raised e, w2) \<Rightarrow> (Raised e, w2)
           | (Returned, w2) \<Rightarrow> (Returned, print (png_message output_path size') w2)))"

definition generate_ico :: "env \<Rightarrow> path \<Rightarrow> path \<Rightarrow> path \<Rightarrow> world \<Rightarrow> outcome \<times> world" where
  "generate_ico E png_16_path png_32_path output_path w =
     (case Image_open E png_16_path w of
        (Inl e, w1) \<Rightarrow> (Raised e, w1)
      | (Inr img_16, w1) \<Rightarrow>
          (case Image_open E png_32_path w1 of
             (Inl e, w2) \<Rightarrow> (Raised e, w2)
           | (Inr img_32, w2) \<Rightarrow>
               (case Image_save_ico E img_16 output_path [(16, 16), (32, 32)] [img_32] w2 of
                  (Raised e, w3) \<Rightarrow> (Raised e, w3)
                | (Returned, w3) \<Rightarrow> (Returned, print (ico_message output_path) w3))))"

text \<open>The loop \<^verbatim>\<open>for filename, size in SIZES.items()\<close> of \<^verbatim>\<open>main\<close>: the first exception ends it.\<close>

fun generate_pngs :: "env \<Rightarrow> path \<Rightarrow> (path \<times> nat) list \<Rightarrow> world \<Rightarrow> outcome \<times> world" where
  "generate_pngs E svg_path [] w = (Returned, w)"
| "generate_pngs E svg_path ((filename, size') # rest) w =
     (case generate_png_from_svg E svg_path filename size' w of
        (Raised e, w1) \<Rightarrow> (Raised e, w1)
      | (Returned, w1) \<Rightarrow> generate_pngs E svg_path rest w1)"

text \<open>The lines of the closing summary, one per \<^verbatim>\<open>print\<close> call.\<close>

definition summary_lines :: "string list" where
  "summary_lines =
     [CHR 0x0A # white_check_mark @ '' All icons generated successfully!'',
      CHR 0x0A # ''Generated files:'']
     @ map (\<lambda>filename. ''  - '' @ filename) (map fst SIZES)
     @ [''  - favicon.ico'']"

definition print_summary :: "world \<Rightarrow> world" where
  "print_summary w = fold print summary_lines w"

definition main :: "env \<Rightarrow> world \<Rightarrow> outcome \<times> world" where
  "main E w =
     (let svg_path = ''icon.svg'' in
      if \<not> path_exists w svg_path
      then (Returned, print (''Error: '' @ svg_path @ '' not found!'') w)
      else
        (case generate_pngs E svg_path SIZES (print ''Generating icons...'' w) of
           (Raised e, w1) \<Rightarrow> (Raised e, w1)
         | (Returned, w1) \<Rightarrow>
             (case generate_ico E ''favicon-16x16.png'' ''favicon-32x32.png'' ''favicon.ico'' w1 of
                (Raised e, w2) \<Rightarrow> (Raised e, w2)
              | (Returned, w2) \<Rightarrow> (Returned, print_summary w2))))"

text \<open>
  The top of the module: \<^verbatim>\<open>import cairosvg\<close> and \<^verbatim>\<open>from PIL import Image\<close> inside
  \<^verbatim>\<open>try\<close>; on \<^verbatim>\<open>ImportError\<close> a message, \<^verbatim>\<open>os.system("pip3 install cairosvg pillow")\<close>
  whose exit status is dropped, and the two imports again, outside any \<^verbatim>\<open>try\<close>.
\<close>

definition import_libs :: "world \<Rightarrow> bool" where
  "import_libs w = (''cairosvg'' \<in> set (modules w) \<and> ''PIL'' \<in> set (modules w))"

definition run_os_system :: "env \<Rightarrow> string \<Rightarrow> world \<Rightarrow> int \<times> world" where
  "run_os_system E cmd w =
     (let (status, ms) = os_system E cmd (modules w)
      in (status, emit (System cmd) (w\<lparr>modules := ms\<rparr>)))"

definition bootstrap :: "env \<Rightarrow> world \<Rightarrow> outcome \<times> world" where
  "bootstrap E w =
     (if import_libs w then (Returned, w)
      else
        (let w1 = print ''Installing required packages...'' w;
             (status, w2) = run_os_system E ''pip3 install cairosvg pillow'' w1
         in if import_libs w2 then (Returned, w2) else (Raised ImportError, w2)))"

text \<open>The script run as a program: the imports, then \<^verbatim>\<open>main()\<close>.\<close>

definition program :: "env \<Rightarrow> world \<Rightarrow> outcome \<times> world" where
  "program E w =
     (case bootstrap E w of
        (Raised e, w1) \<Rightarrow> (Raised e, w1)
      | (Returned, w1) \<Rightarrow> main E w1)"

subsection \<open>Reading a run\<close>

text \<open>
  The effects a run added to the trace, and what is read from them: the paths of the
  files written, the lines printed, the calls of the rasterizer and the calls of the ICO
  writer, each in the order of the run.
\<close>

definition new_events :: "world \<Rightarrow> world \<Rightarrow> event list" where
  "new_events w w' = drop (length (trace w)) (trace w')"

definition written_paths :: "event list \<Rightarrow> path list" where
  "written_paths evs = concat (map (\<lambda>ev. case ev of Write p d \<Rightarrow> [p] | _ \<Rightarrow> []) evs)"

definition printed :: "event list \<Rightarrow> string list" where
  "printed evs = concat (map (\<lambda>ev. case ev of Print l \<Rightarrow> [l] | _ \<Rightarrow> []) evs)"

definition raster_calls :: "event list \<Rightarrow> (path \<times> nat \<times> nat) list" where
  "raster_calls evs = concat (map (\<lambda>ev. case ev of Svg2png u a b \<Rightarrow> [(u, a, b)] | _ \<Rightarrow> []) evs)"

definition ico_calls :: "event list \<Rightarrow> (image \<times> path \<times> (nat \<times> nat) list \<times> image list) list" where
  "ico_calls evs = concat (map (\<lambda>ev. case ev of IcoSave im p sz app \<Rightarrow> [(im, p, sz, app)] | _ \<Rightarrow> []) evs)"

text \<open>
  A sequence of file writes applied to a directory, the first write first.
\<close>

definition apply_writes :: "(path \<times> bytes) list \<Rightarrow> (path \<Rightarrow> bytes option) \<Rightarrow> (path \<Rightarrow> bytes option)" where
  "apply_writes ws fs = fold (\<lambda>(p, d) m. m(p \<mapsto> d)) ws fs"

subsection \<open>What the steps of a run amount to\<close>

text \<open>
  For one table entry, with the source \<open>svg\<close> in hand: the PNG data the rasterizer
  returns for the entry's size as width and as height; whether the step goes through (the
  rasterizer returns and the file can be opened); the exception it ends with otherwise;
  and the effects of a step that goes through.
\<close>

definition png_of :: "env \<Rightarrow> bytes \<Rightarrow> nat \<Rightarrow> bytes" where
  "png_of E svg s = (case svg2png E svg s s of Inr d \<Rightarrow> d | Inl e \<Rightarrow> [])"

definition step_ok :: "env \<Rightarrow> bytes \<Rightarrow> path \<times> nat \<Rightarrow> bool" where
  "step_ok E svg entry =
     (case svg2png E svg (snd entry) (snd entry) of Inl e \<Rightarrow> False | Inr d \<Rightarrow> can_write E (fst entry))"

definition step_error :: "env \<Rightarrow> bytes \<Rightarrow> path \<times> nat \<Rightarrow> error" where
  "step_error E svg entry =
     (case svg2png E svg (snd entry) (snd entry) of Inl e \<Rightarrow> e | Inr d \<Rightarrow> OSError (fst entry))"

definition step_events :: "env \<Rightarrow> path \<Rightarrow> bytes \<Rightarrow> path \<times> nat \<Rightarrow> event list" where
  "step_events E svg_path svg entry =
     [Svg2png svg_path (snd entry) (snd entry),
      Write (fst entry) (png_of E svg (snd entry)),
      Print (png_message (fst entry) (snd entry))]"

definition png_writes :: "env \<Rightarrow> bytes \<Rightarrow> (path \<times> nat) list \<Rightarrow> (path \<times> bytes) list" where
  "png_writes E svg tbl = map (\<lambda>entry. (fst entry, png_of E svg (snd entry))) tbl"

text \<open>
  The ICO step that goes through, and the whole of a run of \<^verbatim>\<open>main\<close> that returns: its
  effects and the state it leaves.
\<close>

definition ico_events :: "image \<Rightarrow> image \<Rightarrow> bytes \<Rightarrow> event list" where
  "ico_events im16 im32 d =
     [ImageOpen ''favicon-16x16.png'',
      ImageOpen ''favicon-32x32.png'',
      IcoSave im16 ''favicon.ico'' [(16, 16), (32, 32)] [im32],
      Write ''favicon.ico'' d,
      Print (ico_message ''favicon.ico'')]"

definition ico_ok :: "env \<Rightarrow> bytes \<Rightarrow> image \<Rightarrow> image \<Rightarrow> bytes \<Rightarrow> bool" where
  "ico_ok E svg im16 im32 d =
     (image_open E (png_of E svg 16) = Inr im16 \<and>
      image_open E (png_of E svg 32) = Inr im32 \<and>
      can_write E ''favicon.ico'' \<and>
      ico_save E im16 [(16, 16), (32, 32)] [im32] = Inr d)"

definition main_events :: "env \<Rightarrow> bytes \<Rightarrow> image \<Rightarrow> image \<Rightarrow> bytes \<Rightarrow> event list" where
  "main_events E svg im16 im32 d =
     Print ''Generating icons...''
     # concat (map (step_events E ''icon.svg'' svg) SIZES)
     @ ico_events im16 im32 d
     @ map Print summary_lines"

definition main_result :: "env \<Rightarrow> bytes \<Rightarrow> image \<Rightarrow> image \<Rightarrow> bytes \<Rightarrow> world \<Rightarrow> world" where
  "main_result E svg im16 im32 d w =
     w\<lparr>files := (apply_writes (png_writes E svg SIZES) (files w))(''favicon.ico'' \<mapsto> d),
       trace := trace w @ main_events E svg im16 im32 d\<rparr>"

subsection \<open>Two contracts of the libraries\<close>

text \<open>
  The rasterizer honours the sizes of the table: asked for a square of a size the table
  names, what it returns decodes to an image of that width and height. Nothing is asked
  of it at any other size (cairosvg, given 0, falls back to the size of the source).
\<close>

definition honours_size :: "env \<Rightarrow> bool" where
  "honours_size E =
     (\<forall>svg d. \<forall>(n, s) \<in> set SIZES. svg2png E svg s s = Inr d \<longrightarrow>
        (\<exists>im. image_open E d = Inr im \<and> width im = s \<and> height im = s))"

text \<open>
  Pillow documents, for the \<^verbatim>\<open>sizes\<close> option of its ICO writer, that any size bigger than
  the image being saved is ignored: no frame of the file written is wider or higher than
  the image \<^verbatim>\<open>save\<close> was called on.
\<close>

definition ico_ignores_larger :: "env \<Rightarrow> bool" where
  "ico_ignores_larger E =
     (\<forall>im sizes append_images d. ico_save E im sizes append_images = Inr d \<longrightarrow>
        (\<forall>f \<in> set (ico_frames E d). width f \<le> width im \<and> height f \<le> height im))"

subsection \<open>Concrete environments\<close>

text \<open>
  A small executable stand-in for the two libraries. Its PNG is the two dimensions
  followed by the source, its ICO writer keeps, for every requested size that is not
  bigger than the image saved, the provided image of that size (or a blank one), and its
  ICO file lists the frames as width, height, length and pixels.
\<close>

definition demo_svg2png :: "bytes \<Rightarrow> nat \<Rightarrow> nat \<Rightarrow> error + bytes" where
  "demo_svg2png svg wd ht = Inr (wd # ht # svg)"

definition demo_image_open :: "bytes \<Rightarrow> error + image" where
  "demo_image_open d =
     (case d of
        wd # ht # px \<Rightarrow> Inr \<lparr>width = wd, height = ht, pixels = px\<rparr>
      | _ \<Rightarrow> Inl (LibraryError ''cannot identify image file''))"

definition demo_ico_select :: "image \<Rightarrow> (nat \<times> nat) list \<Rightarrow> image list \<Rightarrow> image list" where
  "demo_ico_select im sizes append_images =
     concat (map (\<lambda>sz.
       if fst sz > width im \<or> snd sz > height im \<or> fst sz > 256 \<or> snd sz > 256 then []
       else (case find (\<lambda>p. width p = fst sz \<and> height p = snd sz) (im # append_images) of
               Some p \<Rightarrow> [p]
             | None \<Rightarrow> [\<lparr>width = fst sz, height = snd sz, pixels = []\<rparr>])) sizes)"

definition demo_ico_bytes :: "image list \<Rightarrow> bytes" where
  "demo_ico_bytes frames =
     concat (map (\<lambda>f. width f # height f # length (pixels f) # pixels f) frames)"

fun demo_ico_frames :: "bytes \<Rightarrow> image list" where
  "demo_ico_frames (wd # ht # n # rest) =
     \<lparr>width = wd, height = ht, pixels = take n rest\<rparr> # demo_ico_frames (drop n rest)"
| "demo_ico_frames _ = []"

definition demo_env :: env where
  "demo_env =
     \<lparr>svg2png = demo_svg2png,
      image_open = demo_image_open,
      ico_save = (\<lambda>im sizes append_images. Inr (demo_ico_bytes (demo_ico_select im sizes append_images))),
      ico_frames = demo_ico_frames,
      can_write = (\<lambda>p. True),
      os_system = (\<lambda>cmd ms. (0, ''cairosvg'' # ''PIL'' # ms))\<rparr>"

text \<open>The same environment with a rasterizer that rejects every source.\<close>

definition broken_env :: env where
  "broken_env = demo_env\<lparr>svg2png := (\<lambda>svg wd ht. Inl (LibraryError ''no element found''))\<rparr>"

text \<open>
  The same environment with a rasterizer that fails at width 180 only.
\<close>

definition picky_env :: env where
  "picky_env =
     demo_env\<lparr>svg2png := (\<lambda>svg wd ht.
       if wd = 180 then Inl (LibraryError ''no element found'') else demo_svg2png svg wd ht)\<rparr>"

text \<open>
  The same environment with a rasterizer that, as cairosvg does, ignores a requested
  width or height of 0 and falls back to the size of the source (here 100 by 100).
\<close>

definition fallback_env :: env where
  "fallback_env =
     demo_env\<lparr>svg2png := (\<lambda>svg wd ht.
       if wd = 0 \<or> ht = 0 then Inr (100 # 100 # svg) else demo_svg2png svg wd ht)\<rparr>"

text \<open>
  The same environment with a package installer that fails and installs nothing.
\<close>

definition offline_env :: env where
  "offline_env = demo_env\<lparr>os_system := (\<lambda>cmd ms. (1, ms))\<rparr>"

text \<open>
  Working directories: one that holds only the source, with the PNG data, the images and
  the ICO file the concrete environment makes of it; an empty one; one with another
  source; one with the source but without the two libraries.
\<close>

definition demo_svg :: bytes where
  "demo_svg = [60, 115, 118, 103, 47, 62]"

definition demo_world :: world where
  "demo_world =
     \<lparr>files = [''icon.svg'' \<mapsto> demo_svg],
      modules = [''cairosvg'', ''PIL''],
      trace = []\<rparr>"

definition demo_png :: "nat \<Rightarrow> bytes" where
  "demo_png s = s # s # demo_svg"

definition demo_image :: "nat \<Rightarrow> image" where
  "demo_image s = \<lparr>width = s, height = s, pixels = demo_svg\<rparr>"

definition demo_ico :: bytes where
  "demo_ico = demo_ico_bytes [demo_image 16]"

definition empty_world :: world where
  "empty_world = \<lparr>files = Map.empty, modules = [''cairosvg'', ''PIL''], trace = []\<rparr>"

definition other_world :: world where
  "other_world = \<lparr>files = [''icon.svg'' \<mapsto> [60, 33, 62]], modules = [''cairosvg'', ''PIL''], trace = []\<rparr>"

definition bare_world :: world where
  "bare_world = \<lparr>files = [''icon.svg'' \<mapsto> demo_svg], modules = [], trace = []\<rparr>"

section \<open>Lemmas\<close>

subsection \<open>Writing files\<close>

lemma apply_writes_Nil [simp]: "apply_writes [] fs = fs"
  by (simp add: apply_writes_def)

lemma apply_writes_Cons [simp]: "apply_writes ((p, d) # ws) fs = apply_writes ws (fs(p \<mapsto> d))"
  by (simp add: apply_writes_def)

lemma apply_writes_append [simp]: "apply_writes (xs @ ys) fs = apply_writes ys (apply_writes xs fs)"
  by (simp add: apply_writes_def)

lemma apply_writes_other: "p \<notin> fst ` set ws \<Longrightarrow> apply_writes ws fs p = fs p"
  by (induction ws arbitrary: fs) auto

lemma apply_writes_map_add: "apply_writes ws fs = fs ++ map_of (rev ws)"
proof (induction ws arbitrary: fs)
  case Nil
  then show ?case by simp
next
  case (Cons x ws)
  obtain p d where x: "x = (p, d)" by (cases x)
  have "apply_writes (x # ws) fs = apply_writes ws (fs(p \<mapsto> d))"
    by (simp add: x)
  also have "\<dots> = fs(p \<mapsto> d) ++ map_of (rev ws)"
    by (rule Cons.IH)
  also have "\<dots> = fs ++ (map_of [(p, d)] ++ map_of (rev ws))"
    by (simp add: map_add_def fun_eq_iff split: option.splits)
  also have "\<dots> = fs ++ map_of (rev (x # ws))"
    by (simp add: x map_of_append)
  finally show ?case .
qed

lemma apply_writes_twice: "apply_writes ws (apply_writes ws fs) = apply_writes ws fs"
  by (simp add: apply_writes_map_add map_add_def fun_eq_iff split: option.splits)

lemma png_writes_names: "fst ` set (png_writes E svg tbl) = fst ` set tbl"
  by (induction tbl) (simp_all add: png_writes_def)

lemma files_after_pngs:
  "distinct (map fst tbl) \<Longrightarrow> (n, s) \<in> set tbl \<Longrightarrow>
   apply_writes (png_writes E svg tbl) fs n = Some (png_of E svg s)"
proof (induction tbl arbitrary: fs)
  case Nil
  then show ?case by simp
next
  case (Cons entry tbl)
  obtain m t where entry: "entry = (m, t)" by (cases entry)
  show ?case
  proof (cases "(n, s) = (m, t)")
    case True
    have "m \<notin> fst ` set (png_writes E svg tbl)"
      using Cons.prems(1) entry by (simp add: png_writes_names)
    then have "apply_writes (png_writes E svg tbl) (fs(m \<mapsto> png_of E svg t)) m = Some (png_of E svg t)"
      by (simp add: apply_writes_other)
    with True entry show ?thesis by (simp add: png_writes_def)
  next
    case False
    with Cons.prems entry have "(n, s) \<in> set tbl" "distinct (map fst tbl)" by auto
    from Cons.IH[OF this(2) this(1)] entry show ?thesis by (simp add: png_writes_def)
  qed
qed

lemma SIZES_names: "''icon.svg'' \<notin> fst ` set SIZES"
  by (simp add: SIZES_def)

lemma SIZES_distinct: "distinct (map fst SIZES)"
  by (simp add: SIZES_def)

lemma files_after_pngs_16:
  "apply_writes (png_writes E svg SIZES) fs ''favicon-16x16.png'' = Some (png_of E svg 16)"
  by (simp add: SIZES_def png_writes_def)

lemma files_after_pngs_32:
  "apply_writes (png_writes E svg SIZES) fs ''favicon-32x32.png'' = Some (png_of E svg 32)"
  by (simp add: SIZES_def png_writes_def)

subsection \<open>One table entry, and the loop over the table\<close>

lemma step_ok_png: "step_ok E svg (n, s) \<Longrightarrow> svg2png E svg s s = Inr (png_of E svg s) \<and> can_write E n"
  by (auto simp: step_ok_def png_of_def split: sum.splits)

lemma step_ok_run:
  assumes "files w sp = Some svg" "step_ok E svg (n, s)"
  shows "generate_png_from_svg E sp n s w =
    (Returned, w\<lparr>files := (files w)(n \<mapsto> png_of E svg s),
                  trace := trace w @ step_events E sp svg (n, s)\<rparr>)"
  using assms
  by (auto simp: generate_png_from_svg_def cairosvg_svg2png_def write_file_def print_def emit_def
      step_ok_def step_events_def png_of_def Let_def split: sum.splits)

lemma step_fail_run:
  assumes "files w sp = Some svg" "\<not> step_ok E svg (n, s)"
  shows "generate_png_from_svg E sp n s w =
    (Raised (step_error E svg (n, s)), w\<lparr>trace := trace w @ [Svg2png sp s s]\<rparr>)"
  using assms
  by (auto simp: generate_png_from_svg_def cairosvg_svg2png_def write_file_def print_def emit_def
      step_ok_def step_error_def Let_def split: sum.splits)

lemma generate_pngs_ok:
  assumes "files w sp = Some svg" "sp \<notin> fst ` set tbl" "list_all (step_ok E svg) tbl"
  shows "generate_pngs E sp tbl w =
    (Returned, w\<lparr>files := apply_writes (png_writes E svg tbl) (files w),
                  trace := trace w @ concat (map (step_events E sp svg) tbl)\<rparr>)"
  using assms
proof (induction tbl arbitrary: w)
  case Nil
  then show ?case by (simp add: png_writes_def)
next
  case (Cons entry tbl)
  obtain n s where entry: "entry = (n, s)" by (cases entry)
  from Cons.prems entry have ok: "step_ok E svg (n, s)" and ne: "n \<noteq> sp" by auto
  let ?w1 = "w\<lparr>files := (files w)(n \<mapsto> png_of E svg s),
                trace := trace w @ step_events E sp svg (n, s)\<rparr>"
  have step: "generate_png_from_svg E sp n s w = (Returned, ?w1)"
    using Cons.prems(1) ok by (rule step_ok_run)
  have "files ?w1 sp = Some svg" using Cons.prems(1) ne by simp
  moreover have "sp \<notin> fst ` set tbl" "list_all (step_ok E svg) tbl" using Cons.prems by auto
  ultimately have "generate_pngs E sp tbl ?w1 =
    (Returned, ?w1\<lparr>files := apply_writes (png_writes E svg tbl) (files ?w1),
                  trace := trace ?w1 @ concat (map (step_events E sp svg) tbl)\<rparr>)"
    by (rule Cons.IH)
  with step entry show ?case by (simp add: png_writes_def)
qed

lemma generate_pngs_fail:
  assumes "files w sp = Some svg" "sp \<notin> fst ` set pre" "list_all (step_ok E svg) pre"
    and "\<not> step_ok E svg (n, s)"
  shows "generate_pngs E sp (pre @ (n, s) # post) w =
    (Raised (step_error E svg (n, s)),
     w\<lparr>files := apply_writes (png_writes E svg pre) (files w),
       trace := trace w @ concat (map (step_events E sp svg) pre) @ [Svg2png sp s s]\<rparr>)"
  using assms
proof (induction pre arbitrary: w)
  case Nil
  then show ?case by (simp add: png_writes_def step_fail_run)
next
  case (Cons entry pre)
  obtain m t where entry: "entry = (m, t)" by (cases entry)
  from Cons.prems entry have ok: "step_ok E svg (m, t)" and ne: "m \<noteq> sp" by auto
  let ?w1 = "w\<lparr>files := (files w)(m \<mapsto> png_of E svg t),
                trace := trace w @ step_events E sp svg (m, t)\<rparr>"
  have step: "generate_png_from_svg E sp m t w = (Returned, ?w1)"
    using Cons.prems(1) ok by (rule step_ok_run)
  have "files ?w1 sp = Some svg" using Cons.prems(1) ne by simp
  moreover have "sp \<notin> fst ` set pre" "list_all (step_ok E svg) pre" using Cons.prems by auto
  ultimately have "generate_pngs E sp (pre @ (n, s) # post) ?w1 =
    (Raised (step_error E svg (n, s)),
     ?w1\<lparr>files := apply_writes (png_writes E svg pre) (files ?w1),
       trace := trace ?w1 @ concat (map (step_events E sp svg) pre) @ [Svg2png sp s s]\<rparr>)"
    using Cons.prems(4) by (rule Cons.IH)
  with step entry show ?case by (simp add: png_writes_def)
qed

lemma first_failure:
  assumes "\<not> list_all P tbl"
  obtains pre x post where "tbl = pre @ x # post" "list_all P pre" "\<not> P x"
proof -
  from assms have "\<exists>x\<in>set tbl. \<not> P x" by (simp add: list_all_iff)
  then obtain pre x post where "tbl = pre @ x # post" "\<not> P x" "\<forall>y\<in>set pre. \<not> \<not> P y"
    by (auto dest!: split_list_first_prop)
  then show ?thesis using that by (simp add: list_all_iff)
qed

lemma generate_pngs_Returned_ok:
  assumes "generate_pngs E sp tbl w = (Returned, w')" "files w sp = Some svg" "sp \<notin> fst ` set tbl"
  shows "list_all (step_ok E svg) tbl"
proof (rule ccontr)
  assume "\<not> list_all (step_ok E svg) tbl"
  then have "\<exists>x\<in>set tbl. \<not> step_ok E svg x" by (simp add: list_all_iff)
  then obtain pre x post where tbl: "tbl = pre @ x # post" and bad: "\<not> step_ok E svg x"
    and pre: "\<forall>y\<in>set pre. \<not> \<not> step_ok E svg y"
    by (auto dest!: split_list_first_prop)
  obtain n s where x: "x = (n, s)" by (cases x)
  have "sp \<notin> fst ` set pre" using assms(3) tbl by auto
  moreover have "list_all (step_ok E svg) pre" using pre by (simp add: list_all_iff)
  ultimately have "fst (generate_pngs E sp tbl w) = Raised (step_error E svg (n, s))"
    using generate_pngs_fail[OF assms(2), of pre E n s post] bad tbl x by simp
  with assms(1) show False by simp
qed

subsection \<open>Reading the trace\<close>

lemma new_events_append: "trace w' = trace w @ evs \<Longrightarrow> new_events w w' = evs"
  by (simp add: new_events_def)

lemma printed_map_Print: "printed (map Print ls) = ls"
  by (induction ls) (simp_all add: printed_def)

lemma printed_Nil: "printed [] = []"
  by (simp add: printed_def)

lemma printed_append: "printed (xs @ ys) = printed xs @ printed ys"
  by (simp add: printed_def)

lemma printed_Cons: "printed (ev # evs) = (case ev of Print l \<Rightarrow> [l] | _ \<Rightarrow> []) @ printed evs"
  by (simp add: printed_def)

lemma printed_pngs:
  "printed (concat (map (step_events E sp svg) tbl)) = map (\<lambda>entry. png_message (fst entry) (snd entry)) tbl"
  by (induction tbl) (simp_all add: printed_def step_events_def)

lemma summary_lines_head: "l \<in> set summary_lines \<Longrightarrow> hd l = CHR 0x0A \<or> hd l = CHR '' ''"
  by (auto simp: summary_lines_def SIZES_def)

lemma png_message_no_summary: "png_message n s \<notin> set summary_lines"
  using summary_lines_head[of "png_message n s"] by (auto simp: png_message_def check_mark_def)

lemma generating_no_summary: "''Generating icons...'' \<notin> set summary_lines"
  using summary_lines_head[of "''Generating icons...''"] by auto

subsection \<open>The ICO step\<close>

lemma generate_ico_ok:
  assumes "files w p16 = Some a" "files w p32 = Some b"
    and "image_open E a = Inr im16" "image_open E b = Inr im32"
    and "can_write E out" "ico_save E im16 [(16, 16), (32, 32)] [im32] = Inr d"
  shows "generate_ico E p16 p32 out w =
    (Returned, w\<lparr>files := (files w)(out \<mapsto> d),
                  trace := trace w @ [ImageOpen p16, ImageOpen p32,
                    IcoSave im16 out [(16, 16), (32, 32)] [im32], Write out d,
                    Print (ico_message out)]\<rparr>)"
  using assms
  by (simp add: generate_ico_def Image_open_def Image_save_ico_def print_def emit_def Let_def)

lemma generate_ico_Returned:
  assumes "fst (generate_ico E p16 p32 out w) = Returned"
    and "files w p16 = Some a" "files w p32 = Some b"
  shows "\<exists>im16 im32 d. image_open E a = Inr im16 \<and> image_open E b = Inr im32 \<and>
           can_write E out \<and> ico_save E im16 [(16, 16), (32, 32)] [im32] = Inr d"
  using assms
  by (auto simp: generate_ico_def Image_open_def Image_save_ico_def print_def emit_def Let_def
      split: sum.splits if_splits)

lemma generate_ico_effect:
  "\<exists>r ws evs. fst ` set ws \<subseteq> {out} \<and> (r \<noteq> Returned \<longrightarrow> printed evs = []) \<and>
     (\<forall>v. files v p16 = Some a \<and> files v p32 = Some b \<longrightarrow>
        generate_ico E p16 p32 out v =
          (r, v\<lparr>files := apply_writes ws (files v), trace := trace v @ evs\<rparr>))"
proof (cases "image_open E a")
  case (Inl e)
  show ?thesis
    by (rule exI[of _ "Raised e"], rule exI[of _ "[]"], rule exI[of _ "[ImageOpen p16]"])
      (simp add: Inl generate_ico_def Image_open_def emit_def printed_def)
next
  case a: (Inr im16)
  show ?thesis
  proof (cases "image_open E b")
    case (Inl e)
    show ?thesis
      by (rule exI[of _ "Raised e"], rule exI[of _ "[]"],
          rule exI[of _ "[ImageOpen p16, ImageOpen p32]"])
        (simp add: a Inl generate_ico_def Image_open_def emit_def printed_def)
  next
    case b: (Inr im32)
    let ?call = "IcoSave im16 out [(16, 16), (32, 32)] [im32]"
    show ?thesis
    proof (cases "can_write E out")
      case False
      show ?thesis
        by (rule exI[of _ "Raised (OSError out)"], rule exI[of _ "[]"],
            rule exI[of _ "[ImageOpen p16, ImageOpen p32, ?call]"])
          (simp add: a b False generate_ico_def Image_open_def Image_save_ico_def emit_def
            printed_def)
    next
      case True
      show ?thesis
      proof (cases "ico_save E im16 [(16, 16), (32, 32)] [im32]")
        case (Inl e)
        show ?thesis
          by (rule exI[of _ "Raised e"], rule exI[of _ "[]"],
              rule exI[of _ "[ImageOpen p16, ImageOpen p32, ?call]"])
            (simp add: a b True Inl generate_ico_def Image_open_def Image_save_ico_def emit_def
              printed_def)
      next
        case (Inr d)
        show ?thesis
          by (rule exI[of _ Returned], rule exI[of _ "[(out, d)]"],
              rule exI[of _ "[ImageOpen p16, ImageOpen p32, ?call, Write out d,
                Print (ico_message out)]"])
            (simp add: a b True Inr generate_ico_def Image_open_def Image_save_ico_def emit_def
              print_def)
      qed
    qed
  qed
qed

subsection \<open>The whole of main\<close>

lemma print_summary_trace: "fold print ls w = w\<lparr>trace := trace w @ map Print ls\<rparr>"
  by (induction ls arbitrary: w) (simp_all add: print_def emit_def)

lemma main_missing:
  "files w ''icon.svg'' = None \<Longrightarrow>
   main E w = (Returned, w\<lparr>trace := trace w @ [Print ''Error: icon.svg not found!'']\<rparr>)"
  by (simp add: main_def path_exists_def print_def emit_def)

lemma main_ok_run:
  assumes svg: "files w ''icon.svg'' = Some svg"
    and ok: "list_all (step_ok E svg) SIZES"
    and ico: "ico_ok E svg im16 im32 d"
  shows "main E w = (Returned, main_result E svg im16 im32 d w)"
proof -
  let ?w0 = "print ''Generating icons...'' w"
  let ?w1 = "?w0\<lparr>files := apply_writes (png_writes E svg SIZES) (files ?w0),
                  trace := trace ?w0 @ concat (map (step_events E ''icon.svg'' svg) SIZES)\<rparr>"
  have "files ?w0 ''icon.svg'' = Some svg" using svg by (simp add: print_def emit_def)
  then have loop: "generate_pngs E ''icon.svg'' SIZES ?w0 = (Returned, ?w1)"
    using SIZES_names ok by (rule generate_pngs_ok)
  have f16: "files ?w1 ''favicon-16x16.png'' = Some (png_of E svg 16)"
    by (simp add: files_after_pngs_16)
  have f32: "files ?w1 ''favicon-32x32.png'' = Some (png_of E svg 32)"
    by (simp add: files_after_pngs_32)
  have "generate_ico E ''favicon-16x16.png'' ''favicon-32x32.png'' ''favicon.ico'' ?w1 =
    (Returned, ?w1\<lparr>files := (files ?w1)(''favicon.ico'' \<mapsto> d),
       trace := trace ?w1 @ [ImageOpen ''favicon-16x16.png'', ImageOpen ''favicon-32x32.png'',
         IcoSave im16 ''favicon.ico'' [(16, 16), (32, 32)] [im32], Write ''favicon.ico'' d,
         Print (ico_message ''favicon.ico'')]\<rparr>)"
    using ico unfolding ico_ok_def by (intro generate_ico_ok[OF f16 f32]) simp_all
  with loop svg show ?thesis
    by (simp add: main_def path_exists_def print_summary_def print_summary_trace
        main_result_def main_events_def ico_events_def print_def emit_def)
qed

lemma main_Returned:
  assumes svg: "files w ''icon.svg'' = Some svg"
    and ret: "fst (main E w) = Returned"
  shows "list_all (step_ok E svg) SIZES \<and>
    (\<exists>im16 im32 d. ico_ok E svg im16 im32 d \<and> snd (main E w) = main_result E svg im16 im32 d w)"
proof -
  let ?w0 = "print ''Generating icons...'' w"
  have svg0: "files ?w0 ''icon.svg'' = Some svg" using svg by (simp add: print_def emit_def)
  obtain r1 w1 where loop: "generate_pngs E ''icon.svg'' SIZES ?w0 = (r1, w1)"
    by (cases "generate_pngs E ''icon.svg'' SIZES ?w0")
  have r1: "r1 = Returned"
    using ret svg loop by (cases r1) (simp_all add: main_def path_exists_def)
  have ok: "list_all (step_ok E svg) SIZES"
    using loop svg0 SIZES_names unfolding r1 by (rule generate_pngs_Returned_ok)
  have w1: "w1 = ?w0\<lparr>files := apply_writes (png_writes E svg SIZES) (files ?w0),
                  trace := trace ?w0 @ concat (map (step_events E ''icon.svg'' svg) SIZES)\<rparr>"
    using generate_pngs_ok[OF svg0 SIZES_names ok] loop by simp
  have f16: "files w1 ''favicon-16x16.png'' = Some (png_of E svg 16)"
    unfolding w1 by (simp add: files_after_pngs_16)
  have f32: "files w1 ''favicon-32x32.png'' = Some (png_of E svg 32)"
    unfolding w1 by (simp add: files_after_pngs_32)
  have "fst (generate_ico E ''favicon-16x16.png'' ''favicon-32x32.png'' ''favicon.ico'' w1) = Returned"
    using ret svg loop r1
    by (simp add: main_def path_exists_def split: prod.splits outcome.splits)
  then obtain im16 im32 d where "ico_ok E svg im16 im32 d"
    using generate_ico_Returned[OF _ f16 f32] unfolding ico_ok_def by blast
  with main_ok_run[OF svg ok] ok show ?thesis by auto
qed

lemma new_events_main_result [simp]:
  "new_events w (main_result E svg im16 im32 d w) = main_events E svg im16 im32 d"
  by (simp add: new_events_def main_result_def)

lemma written_paths_main_events:
  "written_paths (main_events E svg im16 im32 d) = map fst SIZES @ [''favicon.ico'']"
  by (simp add: written_paths_def main_events_def step_events_def ico_events_def SIZES_def)

lemma raster_calls_main_events:
  "raster_calls (main_events E svg im16 im32 d) = map (\<lambda>entry. (''icon.svg'', snd entry, snd entry)) SIZES"
  by (simp add: raster_calls_def main_events_def step_events_def ico_events_def SIZES_def)

lemma ico_calls_main_events:
  "ico_calls (main_events E svg im16 im32 d) = [(im16, ''favicon.ico'', [(16, 16), (32, 32)], [im32])]"
  by (simp add: ico_calls_def main_events_def step_events_def ico_events_def SIZES_def)

lemma printed_main_events:
  "printed (main_events E svg im16 im32 d) =
     ''Generating icons...'' # map (\<lambda>entry. png_message (fst entry) (snd entry)) SIZES
     @ [ico_message ''favicon.ico''] @ summary_lines"
  by (simp add: main_events_def ico_events_def printed_append printed_Cons printed_pngs
      printed_map_Print)

lemma main_fail_run:
  assumes svg: "files w ''icon.svg'' = Some svg"
    and tbl: "SIZES = pre @ (n, s) # post"
    and ok: "list_all (step_ok E svg) pre"
    and bad: "\<not> step_ok E svg (n, s)"
  shows "main E w =
    (Raised (step_error E svg (n, s)),
     w\<lparr>files := apply_writes (png_writes E svg pre) (files w),
       trace := trace w @ Print ''Generating icons...''
         # concat (map (step_events E ''icon.svg'' svg) pre) @ [Svg2png ''icon.svg'' s s]\<rparr>)"
proof -
  let ?w0 = "print ''Generating icons...'' w"
  have svg0: "files ?w0 ''icon.svg'' = Some svg" using svg by (simp add: print_def emit_def)
  have "''icon.svg'' \<notin> fst ` set pre" using SIZES_names unfolding tbl by auto
  from generate_pngs_fail[OF svg0 this ok bad, of post] tbl svg show ?thesis
    by (simp add: main_def path_exists_def print_def emit_def Let_def)
qed

lemma main_effect:
  "\<exists>r ws evs. ''icon.svg'' \<notin> fst ` set ws \<and>
     (r \<noteq> Returned \<longrightarrow> set (printed evs) \<inter> set summary_lines = {}) \<and>
     (\<forall>v. files v ''icon.svg'' = Some svg \<longrightarrow>
        main E v = (r, v\<lparr>files := apply_writes ws (files v), trace := trace v @ evs\<rparr>))"
proof (cases "list_all (step_ok E svg) SIZES")
  case False
  then obtain pre x post where tbl: "SIZES = pre @ x # post"
    and ok: "list_all (step_ok E svg) pre" and bad: "\<not> step_ok E svg x"
    by (rule first_failure)
  obtain n s where x: "x = (n, s)" by (cases x)
  let ?evs = "Print ''Generating icons...''
         # concat (map (step_events E ''icon.svg'' svg) pre) @ [Svg2png ''icon.svg'' s s]"
  have "''icon.svg'' \<notin> fst ` set (png_writes E svg pre)"
    using SIZES_names unfolding tbl by (auto simp: png_writes_names)
  moreover have "set (printed ?evs) \<inter> set summary_lines = {}"
    using generating_no_summary png_message_no_summary
    by (auto simp: printed_Cons printed_append printed_pngs printed_Nil)
  moreover have "\<forall>v. files v ''icon.svg'' = Some svg \<longrightarrow>
        main E v = (Raised (step_error E svg x),
          v\<lparr>files := apply_writes (png_writes E svg pre) (files v), trace := trace v @ ?evs\<rparr>)"
    using main_fail_run[OF _ tbl[unfolded x] ok bad[unfolded x]] x by simp
  ultimately show ?thesis by blast
next
  case ok: True
  let ?pngs = "concat (map (step_events E ''icon.svg'' svg) SIZES)"
  obtain r2 ws2 evs2 where ws2: "fst ` set ws2 \<subseteq> {''favicon.ico''}"
    and pr2: "r2 \<noteq> Returned \<longrightarrow> printed evs2 = []"
    and ico: "\<And>v. files v ''favicon-16x16.png'' = Some (png_of E svg 16) \<Longrightarrow>
        files v ''favicon-32x32.png'' = Some (png_of E svg 32) \<Longrightarrow>
        generate_ico E ''favicon-16x16.png'' ''favicon-32x32.png'' ''favicon.ico'' v =
          (r2, v\<lparr>files := apply_writes ws2 (files v), trace := trace v @ evs2\<rparr>)"
    using generate_ico_effect[of "''favicon.ico''" "''favicon-16x16.png''" "png_of E svg 16"
        "''favicon-32x32.png''" "png_of E svg 32" E]
    by blast
  let ?ws = "png_writes E svg SIZES @ ws2"
  let ?evs = "Print ''Generating icons...'' # ?pngs @ evs2
       @ (case r2 of Returned \<Rightarrow> map Print summary_lines | Raised e \<Rightarrow> [])"
  have "''icon.svg'' \<notin> fst ` set (png_writes E svg SIZES)"
    using SIZES_names by (simp add: png_writes_names)
  moreover have "''icon.svg'' \<notin> fst ` set ws2" using ws2 by auto
  ultimately have names: "''icon.svg'' \<notin> fst ` set ?ws" by (simp add: image_Un)
  have prints: "r2 \<noteq> Returned \<longrightarrow> set (printed ?evs) \<inter> set summary_lines = {}"
    using generating_no_summary png_message_no_summary pr2
    by (cases r2) (auto simp: printed_Cons printed_append printed_pngs printed_Nil)
  have run: "main E v = (r2, v\<lparr>files := apply_writes ?ws (files v), trace := trace v @ ?evs\<rparr>)"
    if svg: "files v ''icon.svg'' = Some svg" for v
  proof -
    let ?v0 = "print ''Generating icons...'' v"
    let ?v1 = "?v0\<lparr>files := apply_writes (png_writes E svg SIZES) (files ?v0),
                  trace := trace ?v0 @ ?pngs\<rparr>"
    have "files ?v0 ''icon.svg'' = Some svg" using svg by (simp add: print_def emit_def)
    then have loop: "generate_pngs E ''icon.svg'' SIZES ?v0 = (Returned, ?v1)"
      using SIZES_names ok by (rule generate_pngs_ok)
    have "generate_ico E ''favicon-16x16.png'' ''favicon-32x32.png'' ''favicon.ico'' ?v1 =
          (r2, ?v1\<lparr>files := apply_writes ws2 (files ?v1), trace := trace ?v1 @ evs2\<rparr>)"
      by (rule ico) (simp_all add: files_after_pngs_16 files_after_pngs_32)
    with loop svg show ?thesis
      by (cases r2)
        (simp_all add: main_def path_exists_def print_summary_def print_summary_trace
          print_def emit_def)
  qed
  from names prints run show ?thesis by blast
qed

lemma honours_sizeD:
  assumes "honours_size E" and "(n, s) \<in> set SIZES" and "svg2png E svg s s = Inr d"
  shows "\<exists>im. image_open E d = Inr im \<and> width im = s \<and> height im = s"
  using assms unfolding honours_size_def by fast

lemma main_sizes:
  assumes "files w ''icon.svg'' = Some svg" and "fst (main E w) = Returned" and "honours_size E"
  shows "\<exists>im16 im32 d. ico_ok E svg im16 im32 d \<and>
           width im16 = 16 \<and> height im16 = 16 \<and> width im32 = 32 \<and> height im32 = 32 \<and>
           snd (main E w) = main_result E svg im16 im32 d w"
proof -
  from main_Returned[OF assms(1,2)] obtain im16 im32 d
    where ok: "list_all (step_ok E svg) SIZES"
      and ico: "ico_ok E svg im16 im32 d"
      and res: "snd (main E w) = main_result E svg im16 im32 d w"
    by blast
  have "step_ok E svg (''favicon-16x16.png'', 16)" "step_ok E svg (''favicon-32x32.png'', 32)"
    using ok by (simp_all add: SIZES_def)
  then have "svg2png E svg 16 16 = Inr (png_of E svg 16)" "svg2png E svg 32 32 = Inr (png_of E svg 32)"
    by (simp_all add: step_ok_png)
  then obtain a b where "image_open E (png_of E svg 16) = Inr a" "width a = 16" "height a = 16"
    and "image_open E (png_of E svg 32) = Inr b" "width b = 32" "height b = 32"
    using honours_sizeD[OF assms(3), of "''favicon-16x16.png''" 16 svg "png_of E svg 16"]
      honours_sizeD[OF assms(3), of "''favicon-32x32.png''" 32 svg "png_of E svg 32"]
    by (auto simp: SIZES_def)
  with ico have "width im16 = 16" "height im16 = 16" "width im32 = 32" "height im32 = 32"
    by (simp_all add: ico_ok_def)
  with ico res show ?thesis by blast
qed

subsection \<open>The imports\<close>

lemma import_libs_trace: "import_libs (w\<lparr>trace := t\<rparr>) = import_libs w"
  by (simp add: import_libs_def)

lemma import_libs_modules:
  "import_libs (w\<lparr>modules := ms\<rparr>) = (''cairosvg'' \<in> set ms \<and> ''PIL'' \<in> set ms)"
  by (simp add: import_libs_def)

lemma bootstrap_missing:
  assumes "\<not> import_libs w"
  shows "bootstrap E w =
    (if import_libs (w\<lparr>modules := snd (os_system E ''pip3 install cairosvg pillow'' (modules w))\<rparr>)
     then Returned else Raised ImportError,
     w\<lparr>modules := snd (os_system E ''pip3 install cairosvg pillow'' (modules w)),
       trace := trace w @ [Print ''Installing required packages...'',
                           System ''pip3 install cairosvg pillow'']\<rparr>)"
  using assms
  by (simp add: bootstrap_def run_os_system_def print_def emit_def import_libs_trace
      import_libs_modules Let_def case_prod_beta)

subsection \<open>The concrete environments\<close>

lemma demo_honours_size: "honours_size demo_env"
  by (auto simp: honours_size_def demo_env_def demo_svg2png_def demo_image_open_def)

lemma fallback_honours_size: "honours_size fallback_env"
  by (auto simp: honours_size_def SIZES_def fallback_env_def demo_env_def demo_svg2png_def
      demo_image_open_def)

lemma fallback_at_zero:
  "svg2png fallback_env demo_svg 0 0 = Inr (100 # 100 # demo_svg) \<and>
   image_open fallback_env (100 # 100 # demo_svg) =
     Inr \<lparr>width = 100, height = 100, pixels = demo_svg\<rparr>"
  by (simp add: fallback_env_def demo_env_def demo_image_open_def)

lemma demo_ico_roundtrip: "demo_ico_frames (demo_ico_bytes fs) = fs"
  by (induction fs) (simp_all add: demo_ico_bytes_def)

lemma find_holds: "find P xs = Some x \<Longrightarrow> P x"
  by (induction xs) (auto split: if_splits)

lemma in_concat_map: "x \<in> set (concat (map g xs)) \<Longrightarrow> \<exists>y\<in>set xs. x \<in> set (g y)"
  by auto

lemma demo_ico_select_bounded:
  assumes "f \<in> set (demo_ico_select im sizes app)"
  shows "width f \<le> width im \<and> height f \<le> height im"
proof -
  let ?found = "\<lambda>sz. find (\<lambda>p. width p = fst sz \<and> height p = snd sz) (im # app)"
  let ?big = "\<lambda>sz. fst sz > width im \<or> snd sz > height im \<or> fst sz > 256 \<or> snd sz > (256::nat)"
  from in_concat_map[OF assms[unfolded demo_ico_select_def]]
  obtain sz where f: "f \<in> set (if ?big sz then []
       else (case ?found sz of Some p \<Rightarrow> [p]
             | None \<Rightarrow> [\<lparr>width = fst sz, height = snd sz, pixels = []\<rparr>]))"
    by blast
  then have fits: "\<not> ?big sz" by (cases "?big sz") simp_all
  show ?thesis
  proof (cases "?found sz")
    case None
    with f fits show ?thesis by simp
  next
    case (Some p)
    from find_holds[OF Some] f Some fits show ?thesis by simp
  qed
qed

lemma demo_ignores_larger: "ico_ignores_larger demo_env"
  by (simp add: ico_ignores_larger_def demo_env_def demo_ico_roundtrip demo_ico_select_bounded)

lemma demo_png_of: "png_of demo_env demo_svg s = demo_png s"
  by (simp add: png_of_def demo_env_def demo_svg2png_def demo_png_def)

lemma demo_steps_ok: "list_all (step_ok demo_env demo_svg) tbl"
  by (simp add: list_all_iff step_ok_def demo_env_def demo_svg2png_def)

lemma demo_ico_select: 
  "demo_ico_select (demo_image 16) [(16, 16), (32, 32)] [demo_image 32] = [demo_image 16]"
  by (simp add: demo_ico_select_def demo_image_def)

lemma demo_ico_ok: "ico_ok demo_env demo_svg (demo_image 16) (demo_image 32) demo_ico"
  by (simp add: ico_ok_def demo_png_of demo_ico_select demo_ico_def)
    (simp add: demo_env_def demo_image_open_def demo_png_def demo_image_def demo_ico_select[unfolded demo_image_def])

lemma demo_svg_exists: "files demo_world ''icon.svg'' = Some demo_svg"
  by (simp add: demo_world_def)

lemma demo_trace: "trace demo_world = []"
  by (simp add: demo_world_def)

lemma demo_run:
  "main demo_env demo_world =
     (Returned, main_result demo_env demo_svg (demo_image 16) (demo_image 32) demo_ico demo_world)"
  using demo_svg_exists demo_steps_ok demo_ico_ok by (rule main_ok_run)

lemma demo_returns: "fst (main demo_env demo_world) = Returned"
  by (simp add: demo_run)

lemma demo_env_returns:
  assumes "files w ''icon.svg'' = Some svg"
  shows "fst (main demo_env w) = Returned"
proof -
  let ?im = "\<lambda>s. \<lparr>width = s, height = s, pixels = svg\<rparr>"
  have ok: "list_all (step_ok demo_env svg) SIZES"
    by (simp add: list_all_iff step_ok_def demo_env_def demo_svg2png_def)
  have "png_of demo_env svg s = s # s # svg" for s
    by (simp add: png_of_def demo_env_def demo_svg2png_def)
  then have "ico_ok demo_env svg (?im 16) (?im 32)
      (demo_ico_bytes (demo_ico_select (?im 16) [(16, 16), (32, 32)] [?im 32]))"
    by (simp add: ico_ok_def) (simp add: demo_env_def demo_image_open_def)
  from main_ok_run[OF assms ok this] show ?thesis by simp
qed

lemma broken_run:
  "main broken_env demo_world =
     (Raised (LibraryError ''no element found''),
      demo_world\<lparr>trace := [Print ''Generating icons...'', Svg2png ''icon.svg'' 16 16]\<rparr>)"
proof -
  have tbl: "SIZES = [] @ (''favicon-16x16.png'', 16) # tl SIZES" by (simp add: SIZES_def)
  have bad: "\<not> step_ok broken_env demo_svg (''favicon-16x16.png'', 16)"
    by (simp add: step_ok_def broken_env_def)
  have err: "step_error broken_env demo_svg (''favicon-16x16.png'', 16) = LibraryError ''no element found''"
    by (simp add: step_error_def broken_env_def)
  from main_fail_run[OF demo_svg_exists tbl _ bad] err show ?thesis
    by (simp add: demo_world_def png_writes_def)
qed

section \<open>Properties\<close>

subsection \<open>A successful run\<close>

text \<open>
  C1: when \<^verbatim>\<open>icon.svg\<close> exists and the run returns (every rasterization, every write and
  the packing succeeded), the files written are exactly the six named ones, in this
  order, and every other file is untouched. With a rasterizer that honours the sizes of
  the table, the file of each table entry holds what the rasterizer returned for the
  entry's size as both width and height, a square image of that width and height. And
  \<^verbatim>\<open>favicon.ico\<close> holds what the ICO writer returned for the images decoded from the two
  files \<^verbatim>\<open>favicon-16x16.png\<close> and \<^verbatim>\<open>favicon-32x32.png\<close> as the run left them.
\<close>

theorem main_writes_six_files:
  assumes "files w ''icon.svg'' = Some svg"
    and "fst (main E w) = Returned"
    and "honours_size E"
  shows "written_paths (new_events w (snd (main E w))) =
           [''favicon-16x16.png'', ''favicon-32x32.png'', ''apple-touch-icon.png'',
            ''android-chrome-192x192.png'', ''android-chrome-512x512.png'', ''favicon.ico'']
         \<and> (\<forall>(n, s) \<in> set SIZES. \<exists>d im.
               files (snd (main E w)) n = Some d \<and> svg2png E svg s s = Inr d \<and>
               image_open E d = Inr im \<and> width im = s \<and> height im = s)
         \<and> (\<exists>a b im16 im32 d.
               files (snd (main E w)) ''favicon-16x16.png'' = Some a \<and>
               files (snd (main E w)) ''favicon-32x32.png'' = Some b \<and>
               image_open E a = Inr im16 \<and> image_open E b = Inr im32 \<and>
               ico_save E im16 [(16, 16), (32, 32)] [im32] = Inr d \<and>
               files (snd (main E w)) ''favicon.ico'' = Some d)
         \<and> (\<forall>p. p \<notin> fst ` set SIZES \<and> p \<noteq> ''favicon.ico'' \<longrightarrow>
               files (snd (main E w)) p = files w p)"
proof -
  from main_Returned[OF assms(1,2)] obtain im16 im32 d
    where ok: "list_all (step_ok E svg) SIZES"
      and ico: "ico_ok E svg im16 im32 d"
      and res: "snd (main E w) = main_result E svg im16 im32 d w"
    by blast
  have paths: "written_paths (new_events w (snd (main E w))) = map fst SIZES @ [''favicon.ico'']"
    by (simp add: res written_paths_main_events)
  have pngs: "\<exists>d' im. files (snd (main E w)) n = Some d' \<and> svg2png E svg s s = Inr d' \<and>
               image_open E d' = Inr im \<and> width im = s \<and> height im = s"
    if mem: "(n, s) \<in> set SIZES" for n s
  proof -
    from ok mem have "step_ok E svg (n, s)" by (auto simp: list_all_iff)
    then have r: "svg2png E svg s s = Inr (png_of E svg s)" by (simp add: step_ok_png)
    from honours_sizeD[OF assms(3) mem r]
    obtain im where "image_open E (png_of E svg s) = Inr im" "width im = s" "height im = s"
      by blast
    moreover have "n \<noteq> ''favicon.ico''" using mem by (auto simp: SIZES_def)
    then have "files (snd (main E w)) n = Some (png_of E svg s)"
      using files_after_pngs[OF SIZES_distinct mem] by (simp add: res main_result_def)
    ultimately show ?thesis using r by blast
  qed
  have "files (snd (main E w)) ''favicon-16x16.png'' = Some (png_of E svg 16)"
    "files (snd (main E w)) ''favicon-32x32.png'' = Some (png_of E svg 32)"
    "files (snd (main E w)) ''favicon.ico'' = Some d"
    by (simp_all add: res main_result_def files_after_pngs_16 files_after_pngs_32)
  with ico have packed: "\<exists>a b im16 im32 d.
               files (snd (main E w)) ''favicon-16x16.png'' = Some a \<and>
               files (snd (main E w)) ''favicon-32x32.png'' = Some b \<and>
               image_open E a = Inr im16 \<and> image_open E b = Inr im32 \<and>
               ico_save E im16 [(16, 16), (32, 32)] [im32] = Inr d \<and>
               files (snd (main E w)) ''favicon.ico'' = Some d"
    unfolding ico_ok_def by blast
  have others: "files (snd (main E w)) p = files w p"
    if "p \<notin> fst ` set SIZES \<and> p \<noteq> ''favicon.ico''" for p
    using that by (simp add: res main_result_def apply_writes_other png_writes_names)
  have entries: "\<forall>(n, s) \<in> set SIZES. \<exists>d im.
               files (snd (main E w)) n = Some d \<and> svg2png E svg s s = Inr d \<and>
               image_open E d = Inr im \<and> width im = s \<and> height im = s"
    using pngs by blast
  from paths entries packed others show ?thesis by (simp add: SIZES_def)
qed

theorem main_writes_six_files_witness:
  "files demo_world ''icon.svg'' = Some demo_svg \<and>
   fst (main demo_env demo_world) = Returned \<and>
   honours_size demo_env \<and>
   written_paths (new_events demo_world (snd (main demo_env demo_world))) =
     [''favicon-16x16.png'', ''favicon-32x32.png'', ''apple-touch-icon.png'',
      ''android-chrome-192x192.png'', ''android-chrome-512x512.png'', ''favicon.ico''] \<and>
   files (snd (main demo_env demo_world)) ''favicon-16x16.png'' = Some (demo_png 16) \<and>
   files (snd (main demo_env demo_world)) ''favicon-32x32.png'' = Some (demo_png 32) \<and>
   files (snd (main demo_env demo_world)) ''apple-touch-icon.png'' = Some (demo_png 180) \<and>
   files (snd (main demo_env demo_world)) ''android-chrome-192x192.png'' = Some (demo_png 192) \<and>
   files (snd (main demo_env demo_world)) ''android-chrome-512x512.png'' = Some (demo_png 512) \<and>
   image_open demo_env (demo_png 512) = Inr \<lparr>width = 512, height = 512, pixels = demo_svg\<rparr> \<and>
   image_open demo_env (demo_png 16) = Inr (demo_image 16) \<and>
   image_open demo_env (demo_png 32) = Inr (demo_image 32) \<and>
   ico_save demo_env (demo_image 16) [(16, 16), (32, 32)] [demo_image 32] = Inr demo_ico \<and>
   files (snd (main demo_env demo_world)) ''favicon.ico'' = Some demo_ico"
proof -
  have pngs:
    "files (snd (main demo_env demo_world)) ''favicon-16x16.png'' = Some (demo_png 16)"
    "files (snd (main demo_env demo_world)) ''favicon-32x32.png'' = Some (demo_png 32)"
    "files (snd (main demo_env demo_world)) ''apple-touch-icon.png'' = Some (demo_png 180)"
    "files (snd (main demo_env demo_world)) ''android-chrome-192x192.png'' = Some (demo_png 192)"
    "files (snd (main demo_env demo_world)) ''android-chrome-512x512.png'' = Some (demo_png 512)"
    by (simp_all add: demo_run main_result_def SIZES_def png_writes_def demo_png_of)
  have img: "image_open demo_env (demo_png 512) = Inr \<lparr>width = 512, height = 512, pixels = demo_svg\<rparr>"
    by (simp add: demo_env_def demo_image_open_def demo_png_def)
  have packed:
    "image_open demo_env (demo_png 16) = Inr (demo_image 16)"
    "image_open demo_env (demo_png 32) = Inr (demo_image 32)"
    "ico_save demo_env (demo_image 16) [(16, 16), (32, 32)] [demo_image 32] = Inr demo_ico"
    using demo_ico_ok by (simp_all add: ico_ok_def demo_png_of)
  have ico: "files (snd (main demo_env demo_world)) ''favicon.ico'' = Some demo_ico"
    by (simp add: demo_run main_result_def)
  from main_writes_six_files [OF demo_svg_exists demo_returns demo_honours_size]
    demo_svg_exists demo_returns demo_honours_size pngs img packed ico
  show ?thesis by simp
qed

subsection \<open>The source file is missing\<close>

text \<open>
  C2: when \<^verbatim>\<open>icon.svg\<close> does not exist, \<^verbatim>\<open>main\<close> returns normally, prints one error
  message and nothing else happens: no file is written, no library is called.
\<close>

theorem main_missing_svg:
  assumes "files w ''icon.svg'' = None"
  shows "main E w = (Returned, w\<lparr>trace := trace w @ [Print ''Error: icon.svg not found!'']\<rparr>)"
  using assms by (simp add: main_def path_exists_def print_def emit_def)

theorem main_missing_svg_witness:
  "files empty_world ''icon.svg'' = None \<and>
   main demo_env empty_world =
     (Returned, empty_world\<lparr>trace := trace empty_world @ [Print ''Error: icon.svg not found!'']\<rparr>)"
  using main_missing_svg [of empty_world demo_env] by (simp add: empty_world_def)

subsection \<open>The order of the steps\<close>

text \<open>
  C3, as stated, fails: in a directory that holds \<^verbatim>\<open>icon.svg\<close>, with a rasterizer that
  rejects the source, the run makes one rasterizer call, never packs the ICO and never
  prints the summary.
\<close>

theorem main_steps_counterexample:
  "files demo_world ''icon.svg'' = Some demo_svg \<and>
   raster_calls (new_events demo_world (snd (main broken_env demo_world))) = [(''icon.svg'', 16, 16)] \<and>
   ico_calls (new_events demo_world (snd (main broken_env demo_world))) = [] \<and>
   fst (main broken_env demo_world) = Raised (LibraryError ''no element found'')"
  by (simp add: broken_run demo_svg_exists demo_trace new_events_def raster_calls_def ico_calls_def)

text \<open>
  C3, amended: when \<^verbatim>\<open>icon.svg\<close> exists and no step raises, the run is: the opening line;
  then, for each table entry in table order, one rasterizer call, the write of its file
  and its confirmation; then the two images opened, one ICO save, its write and its
  confirmation; and only then the summary. So the rasterizer is called exactly once per
  entry, with sizes 16, 32, 180, 192, 512 in this order, and the ICO is saved exactly once.
\<close>

theorem main_steps_in_order:
  assumes "files w ''icon.svg'' = Some svg"
    and "fst (main E w) = Returned"
  shows "(\<exists>im16 im32 d.
            new_events w (snd (main E w)) =
              Print ''Generating icons...''
              # concat (map (step_events E ''icon.svg'' svg) SIZES)
              @ ico_events im16 im32 d
              @ map Print summary_lines)
         \<and> raster_calls (new_events w (snd (main E w))) =
             [(''icon.svg'', 16, 16), (''icon.svg'', 32, 32), (''icon.svg'', 180, 180),
              (''icon.svg'', 192, 192), (''icon.svg'', 512, 512)]
         \<and> length (ico_calls (new_events w (snd (main E w)))) = 1"
proof -
  from main_Returned[OF assms] obtain im16 im32 d
    where res: "snd (main E w) = main_result E svg im16 im32 d w"
    by blast
  have ev: "new_events w (snd (main E w)) = main_events E svg im16 im32 d"
    by (simp add: res)
  have "\<exists>im16 im32 d.
            new_events w (snd (main E w)) =
              Print ''Generating icons...''
              # concat (map (step_events E ''icon.svg'' svg) SIZES)
              @ ico_events im16 im32 d
              @ map Print summary_lines"
    using ev unfolding main_events_def by blast
  moreover have "raster_calls (new_events w (snd (main E w))) =
             [(''icon.svg'', 16, 16), (''icon.svg'', 32, 32), (''icon.svg'', 180, 180),
              (''icon.svg'', 192, 192), (''icon.svg'', 512, 512)]"
    by (simp add: ev raster_calls_main_events SIZES_def)
  moreover have "length (ico_calls (new_events w (snd (main E w)))) = 1"
    by (simp add: ev ico_calls_main_events)
  ultimately show ?thesis by (intro conjI)
qed

theorem main_steps_in_order_witness:
  "files demo_world ''icon.svg'' = Some demo_svg \<and>
   fst (main demo_env demo_world) = Returned \<and>
   raster_calls (new_events demo_world (snd (main demo_env demo_world))) =
     [(''icon.svg'', 16, 16), (''icon.svg'', 32, 32), (''icon.svg'', 180, 180),
      (''icon.svg'', 192, 192), (''icon.svg'', 512, 512)] \<and>
   length (ico_calls (new_events demo_world (snd (main demo_env demo_world)))) = 1"
  using main_steps_in_order [OF demo_svg_exists demo_returns] demo_svg_exists demo_returns
  by simp

subsection \<open>The content of favicon.ico\<close>

text \<open>
  C4, evaluated on the code: in a run that returns, the two images handed to the ICO
  writer are the ones decoded from \<^verbatim>\<open>favicon-16x16.png\<close> and \<^verbatim>\<open>favicon-32x32.png\<close> as the
  run wrote them, of sizes 16 and 32. But \<^verbatim>\<open>save\<close> is called on the 16 pixel image, and a
  writer that ignores requested sizes bigger than the image saved, as Pillow documents,
  puts no frame wider or higher than 16 into \<^verbatim>\<open>favicon.ico\<close>: the file has no 32 pixel
  image.
\<close>

theorem favicon_ico_frames:
  assumes "files w ''icon.svg'' = Some svg" and "fst (main E w) = Returned"
    and "honours_size E" and "ico_ignores_larger E"
  shows "\<exists>im16 im32 d.
           files (snd (main E w)) ''favicon-16x16.png'' = Some (png_of E svg 16) \<and>
           files (snd (main E w)) ''favicon-32x32.png'' = Some (png_of E svg 32) \<and>
           image_open E (png_of E svg 16) = Inr im16 \<and> width im16 = 16 \<and> height im16 = 16 \<and>
           image_open E (png_of E svg 32) = Inr im32 \<and> width im32 = 32 \<and> height im32 = 32 \<and>
           ico_save E im16 [(16, 16), (32, 32)] [im32] = Inr d \<and>
           files (snd (main E w)) ''favicon.ico'' = Some d \<and>
           (\<forall>f \<in> set (ico_frames E d). width f \<le> 16 \<and> height f \<le> 16)"
proof -
  from main_sizes[OF assms(1,2,3)] obtain im16 im32 d
    where ico: "ico_ok E svg im16 im32 d"
      and sz: "width im16 = 16" "height im16 = 16" "width im32 = 32" "height im32 = 32"
      and res: "snd (main E w) = main_result E svg im16 im32 d w"
    by blast
  from ico have save: "ico_save E im16 [(16, 16), (32, 32)] [im32] = Inr d"
    by (simp add: ico_ok_def)
  with assms(4) have "\<forall>f \<in> set (ico_frames E d). width f \<le> width im16 \<and> height f \<le> height im16"
    unfolding ico_ignores_larger_def by blast
  then have "\<forall>f \<in> set (ico_frames E d). width f \<le> 16 \<and> height f \<le> 16"
    by (simp add: sz)
  moreover have "files (snd (main E w)) ''favicon-16x16.png'' = Some (png_of E svg 16)"
    "files (snd (main E w)) ''favicon-32x32.png'' = Some (png_of E svg 32)"
    "files (snd (main E w)) ''favicon.ico'' = Some d"
    by (simp_all add: res main_result_def files_after_pngs_16 files_after_pngs_32)
  ultimately show ?thesis using ico sz save unfolding ico_ok_def by blast
qed

theorem favicon_ico_frames_witness:
  "files demo_world ''icon.svg'' = Some demo_svg \<and>
   fst (main demo_env demo_world) = Returned \<and>
   honours_size demo_env \<and>
   ico_ignores_larger demo_env \<and>
   files (snd (main demo_env demo_world)) ''favicon.ico'' = Some demo_ico \<and>
   ico_frames demo_env demo_ico = [\<lparr>width = 16, height = 16, pixels = demo_svg\<rparr>]"
proof -
  have ico: "files (snd (main demo_env demo_world)) ''favicon.ico'' = Some demo_ico"
    by (simp add: demo_run main_result_def)
  have frames: "ico_frames demo_env demo_ico = [\<lparr>width = 16, height = 16, pixels = demo_svg\<rparr>]"
    by (simp add: demo_env_def demo_ico_def demo_ico_roundtrip demo_image_def)
  from favicon_ico_frames [OF demo_svg_exists demo_returns demo_honours_size demo_ignores_larger]
    ico frames demo_svg_exists demo_returns demo_honours_size demo_ignores_larger
  show ?thesis by simp
qed

subsection \<open>The summary\<close>

text \<open>
  C5, as stated, fails: with \<^verbatim>\<open>icon.svg\<close> present and a rasterizer that rejects it, the
  run ends with the exception and the only line printed is the opening one.
\<close>

theorem summary_counterexample:
  "files demo_world ''icon.svg'' = Some demo_svg \<and>
   fst (main broken_env demo_world) \<noteq> Returned \<and>
   printed (new_events demo_world (snd (main broken_env demo_world))) = [''Generating icons...'']"
  by (simp add: broken_run demo_svg_exists demo_trace new_events_def printed_def)

text \<open>
  C5, amended: when \<^verbatim>\<open>icon.svg\<close> exists, the summary is printed exactly when no step
  raised. It is then the last thing the run does, and its lines are the two headings,
  the five names of the table and \<^verbatim>\<open>favicon.ico\<close>: constants, not read back from the
  directory. When a step raised, no line of the summary is printed.
\<close>

theorem summary_iff_returned:
  assumes "files w ''icon.svg'' = Some svg"
  shows "(fst (main E w) = Returned \<longrightarrow>
            (\<exists>evs. new_events w (snd (main E w)) = evs @ map Print summary_lines))
         \<and> (fst (main E w) \<noteq> Returned \<longrightarrow>
            set (printed (new_events w (snd (main E w)))) \<inter> set summary_lines = {})
         \<and> summary_lines =
            [CHR 0x0A # white_check_mark @ '' All icons generated successfully!'',
             CHR 0x0A # ''Generated files:'',
             ''  - favicon-16x16.png'',
             ''  - favicon-32x32.png'',
             ''  - apple-touch-icon.png'',
             ''  - android-chrome-192x192.png'',
             ''  - android-chrome-512x512.png'',
             ''  - favicon.ico'']"
proof (intro conjI impI)
  assume "fst (main E w) = Returned"
  from main_Returned[OF assms this] obtain im16 im32 d
    where "snd (main E w) = main_result E svg im16 im32 d w"
    by blast
  then have "new_events w (snd (main E w)) =
      (Print ''Generating icons...'' # concat (map (step_events E ''icon.svg'' svg) SIZES)
        @ ico_events im16 im32 d) @ map Print summary_lines"
    by (simp add: main_events_def)
  then show "\<exists>evs. new_events w (snd (main E w)) = evs @ map Print summary_lines" ..
next
  assume raised: "fst (main E w) \<noteq> Returned"
  from main_effect[of svg E] obtain r ws evs
    where quiet: "r \<noteq> Returned \<longrightarrow> set (printed evs) \<inter> set summary_lines = {}"
      and run: "main E w = (r, w\<lparr>files := apply_writes ws (files w), trace := trace w @ evs\<rparr>)"
    using assms by blast
  from run have "new_events w (snd (main E w)) = evs" by (simp add: new_events_def)
  with quiet raised run
  show "set (printed (new_events w (snd (main E w)))) \<inter> set summary_lines = {}" by simp
next
  show "summary_lines =
            [CHR 0x0A # white_check_mark @ '' All icons generated successfully!'',
             CHR 0x0A # ''Generated files:'',
             ''  - favicon-16x16.png'',
             ''  - favicon-32x32.png'',
             ''  - apple-touch-icon.png'',
             ''  - android-chrome-192x192.png'',
             ''  - android-chrome-512x512.png'',
             ''  - favicon.ico'']"
    by (simp add: summary_lines_def SIZES_def)
qed

theorem summary_iff_returned_witness:
  "files demo_world ''icon.svg'' = Some demo_svg \<and>
   fst (main demo_env demo_world) = Returned \<and>
   (\<exists>evs. new_events demo_world (snd (main demo_env demo_world)) = evs @ map Print summary_lines) \<and>
   fst (main broken_env demo_world) \<noteq> Returned \<and>
   set (printed (new_events demo_world (snd (main broken_env demo_world)))) \<inter> set summary_lines = {}"
  using summary_iff_returned [OF demo_svg_exists, of demo_env]
    summary_iff_returned [OF demo_svg_exists, of broken_env]
    demo_svg_exists demo_returns broken_run
  by simp

subsection \<open>Running twice\<close>

text \<open>
  C6: the libraries being functions of what they are given, a second run of \<^verbatim>\<open>main\<close> in
  the directory the first run left ends as the first did, has the same effects in the same
  order (the same files written with the same content, the same calls, the same lines)
  and leaves every file as the first run left it.
\<close>

theorem main_idempotent:
  "fst (main E (snd (main E w))) = fst (main E w)
   \<and> new_events (snd (main E w)) (snd (main E (snd (main E w)))) = new_events w (snd (main E w))
   \<and> files (snd (main E (snd (main E w)))) = files (snd (main E w))"
proof (cases "files w ''icon.svg''")
  case None
  let ?w1 = "w\<lparr>trace := trace w @ [Print ''Error: icon.svg not found!'']\<rparr>"
  have first: "main E w = (Returned, ?w1)" using None by (rule main_missing)
  have "files ?w1 ''icon.svg'' = None" using None by simp
  then have "main E ?w1 = (Returned, ?w1\<lparr>trace := trace ?w1 @ [Print ''Error: icon.svg not found!'']\<rparr>)"
    by (rule main_missing)
  with first show ?thesis by (simp add: new_events_def)
next
  case (Some svg)
  from main_effect[of svg E] obtain r ws evs
    where names: "''icon.svg'' \<notin> fst ` set ws"
      and run: "\<And>v. files v ''icon.svg'' = Some svg \<Longrightarrow>
        main E v = (r, v\<lparr>files := apply_writes ws (files v), trace := trace v @ evs\<rparr>)"
    by blast
  let ?w1 = "w\<lparr>files := apply_writes ws (files w), trace := trace w @ evs\<rparr>"
  have first: "main E w = (r, ?w1)" using Some by (rule run)
  have "files ?w1 ''icon.svg'' = Some svg"
    using Some names by (simp add: apply_writes_other)
  then have "main E ?w1 = (r, ?w1\<lparr>files := apply_writes ws (files ?w1), trace := trace ?w1 @ evs\<rparr>)"
    by (rule run)
  with first show ?thesis by (simp add: new_events_def apply_writes_twice)
qed

subsection \<open>A failed rasterization\<close>

text \<open>
  C7: when the rasterizer raises for a table entry, after the entries before it went
  through, \<^verbatim>\<open>main\<close> ends with that exception. The file of the failing entry is not
  written: it is as before the run. The files of the earlier entries hold their PNG
  data. The last effect of the run is the failing rasterizer call: no later entry is
  rasterized, nothing is packed, no summary is printed.
\<close>

theorem rasterization_failure_aborts:
  assumes "files w ''icon.svg'' = Some svg"
    and "SIZES = pre @ (n, s) # post"
    and "list_all (step_ok E svg) pre"
    and "svg2png E svg s s = Inl e"
  shows "fst (main E w) = Raised e
         \<and> files (snd (main E w)) n = files w n
         \<and> (\<forall>(m, t) \<in> set pre. files (snd (main E w)) m = Some (png_of E svg t)
                \<and> svg2png E svg t t = Inr (png_of E svg t))
         \<and> new_events w (snd (main E w)) =
             Print ''Generating icons...''
             # concat (map (step_events E ''icon.svg'' svg) pre)
             @ [Svg2png ''icon.svg'' s s]
         \<and> written_paths (new_events w (snd (main E w))) = map fst pre
         \<and> raster_calls (new_events w (snd (main E w))) =
             map (\<lambda>entry. (''icon.svg'', snd entry, snd entry)) (pre @ [(n, s)])
         \<and> ico_calls (new_events w (snd (main E w))) = []"
proof -
  have bad: "\<not> step_ok E svg (n, s)" and err: "step_error E svg (n, s) = e"
    using assms(4) by (simp_all add: step_ok_def step_error_def)
  let ?evs = "Print ''Generating icons...''
             # concat (map (step_events E ''icon.svg'' svg) pre) @ [Svg2png ''icon.svg'' s s]"
  have run: "main E w = (Raised e,
      w\<lparr>files := apply_writes (png_writes E svg pre) (files w), trace := trace w @ ?evs\<rparr>)"
    using main_fail_run[OF assms(1,2,3) bad] err by simp
  have dist: "distinct (map fst pre)" and fresh: "n \<notin> fst ` set pre"
    using SIZES_distinct unfolding assms(2) by auto
  have ev: "new_events w (snd (main E w)) = ?evs"
    by (simp add: run new_events_def)
  have "files (snd (main E w)) n = files w n"
    using fresh by (simp add: run apply_writes_other png_writes_names)
  moreover have "\<forall>(m, t) \<in> set pre. files (snd (main E w)) m = Some (png_of E svg t)
                \<and> svg2png E svg t t = Inr (png_of E svg t)"
  proof (clarify, intro conjI)
    fix m t assume mem: "(m, t) \<in> set pre"
    show "files (snd (main E w)) m = Some (png_of E svg t)"
      using files_after_pngs[OF dist mem] by (simp add: run)
    from assms(3) mem have "step_ok E svg (m, t)" by (auto simp: list_all_iff)
    then show "svg2png E svg t t = Inr (png_of E svg t)" by (simp add: step_ok_png)
  qed
  moreover have "written_paths ?evs = map fst pre"
    by (induction pre) (simp_all add: written_paths_def step_events_def)
  moreover have "raster_calls ?evs = map (\<lambda>entry. (''icon.svg'', snd entry, snd entry)) (pre @ [(n, s)])"
    by (induction pre) (simp_all add: raster_calls_def step_events_def)
  moreover have "ico_calls ?evs = []"
    by (induction pre) (simp_all add: ico_calls_def step_events_def)
  ultimately show ?thesis using run ev by simp
qed

theorem rasterization_failure_aborts_witness:
  "files demo_world ''icon.svg'' = Some demo_svg \<and>
   SIZES = [(''favicon-16x16.png'', 16), (''favicon-32x32.png'', 32)]
     @ (''apple-touch-icon.png'', 180)
     # [(''android-chrome-192x192.png'', 192), (''android-chrome-512x512.png'', 512)] \<and>
   list_all (step_ok picky_env demo_svg) [(''favicon-16x16.png'', 16), (''favicon-32x32.png'', 32)] \<and>
   svg2png picky_env demo_svg 180 180 = Inl (LibraryError ''no element found'') \<and>
   fst (main picky_env demo_world) = Raised (LibraryError ''no element found'') \<and>
   files (snd (main picky_env demo_world)) ''apple-touch-icon.png'' = None \<and>
   written_paths (new_events demo_world (snd (main picky_env demo_world))) =
     [''favicon-16x16.png'', ''favicon-32x32.png''] \<and>
   raster_calls (new_events demo_world (snd (main picky_env demo_world))) =
     [(''icon.svg'', 16, 16), (''icon.svg'', 32, 32), (''icon.svg'', 180, 180)] \<and>
   ico_calls (new_events demo_world (snd (main picky_env demo_world))) = []"
proof -
  have tbl: "SIZES = [(''favicon-16x16.png'', 16), (''favicon-32x32.png'', 32)]
     @ (''apple-touch-icon.png'', 180)
     # [(''android-chrome-192x192.png'', 192), (''android-chrome-512x512.png'', 512)]"
    by (simp add: SIZES_def)
  have ok: "list_all (step_ok picky_env demo_svg)
      [(''favicon-16x16.png'', 16), (''favicon-32x32.png'', 32)]"
    by (simp add: step_ok_def picky_env_def demo_env_def demo_svg2png_def)
  have bad: "svg2png picky_env demo_svg 180 180 = Inl (LibraryError ''no element found'')"
    by (simp add: picky_env_def)
  have absent: "files demo_world ''apple-touch-icon.png'' = None"
    by (simp add: demo_world_def)
  from rasterization_failure_aborts [OF demo_svg_exists tbl ok bad] tbl ok bad absent demo_svg_exists
  show ?thesis by (simp add: written_paths_def raster_calls_def ico_calls_def step_events_def)
qed

subsection \<open>The imports at the top of the module\<close>

text \<open>
  C8: when one of the two libraries cannot be imported, the module prints one line and
  runs the package installer once. The exit status of the installer plays no role:
  whatever it is, the imports are tried again, and the result depends only on what is
  installed by then. If the libraries are still missing, the second import raises
  \<^verbatim>\<open>ImportError\<close> outside any handler: the program ends with it and \<^verbatim>\<open>main\<close> does not run.
\<close>

theorem bootstrap_one_attempt:
  assumes "\<not> import_libs w"
  shows "new_events w (snd (bootstrap E w)) =
           [Print ''Installing required packages...'', System ''pip3 install cairosvg pillow'']
         \<and> modules (snd (bootstrap E w)) =
             snd (os_system E ''pip3 install cairosvg pillow'' (modules w))
         \<and> files (snd (bootstrap E w)) = files w
         \<and> fst (bootstrap E w) =
             (if import_libs (snd (bootstrap E w)) then Returned else Raised ImportError)
         \<and> (\<forall>status. bootstrap (E\<lparr>os_system := (\<lambda>cmd ms. (status, snd (os_system E cmd ms)))\<rparr>) w
               = bootstrap E w)
         \<and> (\<not> import_libs (snd (bootstrap E w)) \<longrightarrow>
               program E w = (Raised ImportError, snd (bootstrap E w)))"
proof -
  have "bootstrap (E\<lparr>os_system := (\<lambda>cmd ms. (status, snd (os_system E cmd ms)))\<rparr>) w
      = bootstrap E w" for status
    by (simp add: bootstrap_missing[OF assms])
  then show ?thesis
    by (simp add: bootstrap_missing[OF assms] program_def new_events_def import_libs_trace
        import_libs_modules)
qed

theorem bootstrap_one_attempt_witness:
  "\<not> import_libs bare_world \<and>
   new_events bare_world (snd (bootstrap offline_env bare_world)) =
     [Print ''Installing required packages...'', System ''pip3 install cairosvg pillow''] \<and>
   \<not> import_libs (snd (bootstrap offline_env bare_world)) \<and>
   program offline_env bare_world = (Raised ImportError, snd (bootstrap offline_env bare_world)) \<and>
   fst (bootstrap demo_env bare_world) = Returned"
proof -
  have bare: "\<not> import_libs bare_world"
    by (simp add: import_libs_def bare_world_def)
  have still: "\<not> import_libs (snd (bootstrap offline_env bare_world))"
    unfolding bootstrap_missing[OF bare]
    by (simp add: import_libs_def offline_env_def bare_world_def)
  have "import_libs (snd (bootstrap demo_env bare_world))"
    unfolding bootstrap_missing[OF bare]
    by (simp add: import_libs_def demo_env_def bare_world_def)
  with bootstrap_one_attempt [OF bare, of offline_env] bootstrap_one_attempt [OF bare, of demo_env]
    bare still
  show ?thesis by simp
qed

subsection \<open>Names do not depend on the source\<close>

text \<open>
  C9: two runs that both find an \<^verbatim>\<open>icon.svg\<close> and both return, whatever the two sources
  hold and whatever the libraries compute, write the same paths in the same order and
  print the same lines: the paths are the names of the table followed by
  \<^verbatim>\<open>favicon.ico\<close>, and the printed lines end with the summary.
\<close>

theorem outputs_independent_of_source:
  assumes "files w ''icon.svg'' = Some svg" and "fst (main E w) = Returned"
    and "files w' ''icon.svg'' = Some svg'" and "fst (main E' w') = Returned"
  shows "written_paths (new_events w (snd (main E w))) =
           written_paths (new_events w' (snd (main E' w')))
         \<and> printed (new_events w (snd (main E w))) =
           printed (new_events w' (snd (main E' w')))
         \<and> written_paths (new_events w (snd (main E w))) = map fst SIZES @ [''favicon.ico'']
         \<and> (\<exists>ls. printed (new_events w (snd (main E w))) = ls @ summary_lines)"
proof -
  from main_Returned[OF assms(1,2)] obtain im16 im32 d
    where res: "snd (main E w) = main_result E svg im16 im32 d w"
    by blast
  from main_Returned[OF assms(3,4)] obtain im16' im32' d'
    where res': "snd (main E' w') = main_result E' svg' im16' im32' d' w'"
    by blast
  have "printed (new_events w (snd (main E w))) =
      (''Generating icons...'' # map (\<lambda>entry. png_message (fst entry) (snd entry)) SIZES
        @ [ico_message ''favicon.ico'']) @ summary_lines"
    by (simp add: res printed_main_events)
  then have "\<exists>ls. printed (new_events w (snd (main E w))) = ls @ summary_lines" ..
  then show ?thesis
    by (simp add: res res' written_paths_main_events printed_main_events)
qed

theorem outputs_independent_of_source_witness:
  "files demo_world ''icon.svg'' = Some demo_svg \<and>
   fst (main demo_env demo_world) = Returned \<and>
   files other_world ''icon.svg'' = Some [60, 33, 62] \<and>
   fst (main demo_env other_world) = Returned \<and>
   demo_svg \<noteq> [60, 33, 62] \<and>
   written_paths (new_events demo_world (snd (main demo_env demo_world))) =
     written_paths (new_events other_world (snd (main demo_env other_world))) \<and>
   printed (new_events demo_world (snd (main demo_env demo_world))) =
     printed (new_events other_world (snd (main demo_env other_world)))"
proof -
  have other: "files other_world ''icon.svg'' = Some [60, 33, 62]"
    by (simp add: other_world_def)
  have ret: "fst (main demo_env other_world) = Returned"
    using other by (rule demo_env_returns)
  have "demo_svg \<noteq> [60, 33, 62]" by (simp add: demo_svg_def)
  with outputs_independent_of_source [OF demo_svg_exists demo_returns other ret]
    demo_svg_exists demo_returns other ret
  show ?thesis by simp
qed

subsection \<open>The order of the images in favicon.ico\<close>

text \<open>
  C10, evaluated on the code: the image \<^verbatim>\<open>save\<close> is called on is the 16 pixel one, the
  32 pixel one is the only appended image, and the sizes are requested in the order 16,
  32. With a writer that ignores sizes bigger than the image saved, \<^verbatim>\<open>favicon.ico\<close> does
  not hold a 16 pixel frame followed by a 32 pixel frame: no frame of it is 32 wide.
\<close>

theorem favicon_ico_order:
  assumes "files w ''icon.svg'' = Some svg" and "fst (main E w) = Returned"
    and "honours_size E" and "ico_ignores_larger E"
  shows "\<exists>im16 im32 d.
           ico_calls (new_events w (snd (main E w))) =
             [(im16, ''favicon.ico'', [(16, 16), (32, 32)], [im32])] \<and>
           width im16 = 16 \<and> height im16 = 16 \<and> width im32 = 32 \<and> height im32 = 32 \<and>
           files (snd (main E w)) ''favicon.ico'' = Some d \<and>
           \<not> (\<exists>f16 f32. ico_frames E d = [f16, f32] \<and> width f16 = 16 \<and> height f16 = 16 \<and>
                 width f32 = 32 \<and> height f32 = 32) \<and>
           (\<forall>i < length (ico_frames E d). width (ico_frames E d ! i) \<noteq> 32)"
proof -
  from main_sizes[OF assms(1,2,3)] obtain im16 im32 d
    where ico: "ico_ok E svg im16 im32 d"
      and sz: "width im16 = 16" "height im16 = 16" "width im32 = 32" "height im32 = 32"
      and res: "snd (main E w) = main_result E svg im16 im32 d w"
    by blast
  from ico have "ico_save E im16 [(16, 16), (32, 32)] [im32] = Inr d"
    by (simp add: ico_ok_def)
  with assms(4) have small: "\<forall>f \<in> set (ico_frames E d). width f \<le> 16"
    unfolding ico_ignores_larger_def using sz by fastforce
  have no32: "\<forall>i < length (ico_frames E d). width (ico_frames E d ! i) \<noteq> 32"
  proof (intro allI impI)
    fix i assume "i < length (ico_frames E d)"
    then have "ico_frames E d ! i \<in> set (ico_frames E d)" by simp
    with small have "width (ico_frames E d ! i) \<le> 16" by blast
    then show "width (ico_frames E d ! i) \<noteq> 32" by simp
  qed
  have nopair: "\<not> (\<exists>f16 f32. ico_frames E d = [f16, f32] \<and> width f16 = 16 \<and> height f16 = 16 \<and>
                 width f32 = 32 \<and> height f32 = 32)"
  proof
    assume "\<exists>f16 f32. ico_frames E d = [f16, f32] \<and> width f16 = 16 \<and> height f16 = 16 \<and>
                 width f32 = 32 \<and> height f32 = 32"
    then obtain f16 f32 where "ico_frames E d = [f16, f32]" "width f32 = 32" by blast
    with small show False by simp
  qed
  have "ico_calls (new_events w (snd (main E w))) =
             [(im16, ''favicon.ico'', [(16, 16), (32, 32)], [im32])]"
    by (simp add: res ico_calls_main_events)
  moreover have "files (snd (main E w)) ''favicon.ico'' = Some d"
    by (simp add: res main_result_def)
  ultimately show ?thesis using sz no32 nopair by blast
qed

theorem favicon_ico_order_witness:
  "files demo_world ''icon.svg'' = Some demo_svg \<and>
   fst (main demo_env demo_world) = Returned \<and>
   honours_size demo_env \<and>
   ico_ignores_larger demo_env \<and>
   ico_calls (new_events demo_world (snd (main demo_env demo_world))) =
     [(demo_image 16, ''favicon.ico'', [(16, 16), (32, 32)], [demo_image 32])] \<and>
   files (snd (main demo_env demo_world)) ''favicon.ico'' = Some demo_ico \<and>
   length (ico_frames demo_env demo_ico) = 1 \<and>
   width (ico_frames demo_env demo_ico ! 0) = 16"
proof -
  have ico: "files (snd (main demo_env demo_world)) ''favicon.ico'' = Some demo_ico"
    by (simp add: demo_run main_result_def)
  have calls: "ico_calls (new_events demo_world (snd (main demo_env demo_world))) =
     [(demo_image 16, ''favicon.ico'', [(16, 16), (32, 32)], [demo_image 32])]"
    by (simp add: demo_run ico_calls_main_events)
  have frames: "length (ico_frames demo_env demo_ico) = 1"
    "width (ico_frames demo_env demo_ico ! 0) = 16"
    by (simp_all add: demo_env_def demo_ico_def demo_ico_roundtrip demo_image_def)
  from favicon_ico_order [OF demo_svg_exists demo_returns demo_honours_size demo_ignores_larger]
    ico calls frames demo_svg_exists demo_returns demo_honours_size demo_ignores_larger
  show ?thesis by simp
qed

end
